theory Spec2Isabelle
  imports Complex_Main
begin

section \<open>Pointing positions for NuSTAR solar observations\<close>

text \<open>
  The notebook \<^verbatim>\<open>setup_pointing/NuSTAR Sun Pointing Example.ipynb\<close> defines two
  functions, \<^verbatim>\<open>get_sky_position\<close> and \<^verbatim>\<open>get_nustar_roll\<close>, and two usage cells.
  Numbers are modelled as real numbers.  In \<^verbatim>\<open>get_sky_position\<close> the arithmetic of the
  source is the arithmetic of this theory, without the rounding of binary floating point
  and without its infinities: its theorems say which formula the function computes.
  In floating point the cosine of a declination is never exactly zero; in the model it is
  zero at a declination of 90 degrees, and there the quotient \<open>1 / cos Dec\<close> is the
  \<open>1 / 0 = 0\<close> of the logic, where numpy would give \<open>inf\<close>.  In \<^verbatim>\<open>get_nustar_roll\<close>
  the sum and the remainder are those of binary64, rounded to nearest with ties to even:
  its theorems are about the very number returned, for angles in degrees, which astropy
  adds without a conversion.  The conversion between two different units is exact in the
  model.  The astronomy libraries
  (sunpy's \<^verbatim>\<open>parse_time\<close> and \<^verbatim>\<open>solar_north\<close>, astropy's \<^verbatim>\<open>Time\<close> and
  \<^verbatim>\<open>get_sun\<close>) are parameters of the model; each of them may raise.
\<close>

subsection \<open>Exceptions\<close>

datatype error =
    ValueError            \<comment> \<open>numpy: shapes not aligned, operands could not be broadcast\<close>
  | UnitConversionError   \<comment> \<open>astropy: operands without compatible units\<close>
  | OverflowError         \<comment> \<open>datetime: result out of range\<close>
  | Raised string         \<comment> \<open>an exception raised inside one of the astronomy libraries\<close>

subsection \<open>Angular units and quantities\<close>

datatype angle_unit = Radian | Degree | Arcmin | Arcsec

text \<open>The size of one unit in radians, as astropy defines the units.\<close>

fun rad_per :: "angle_unit \<Rightarrow> real" where
  "rad_per Radian = 1"
| "rad_per Degree = pi / 180"
| "rad_per Arcmin = pi / 180 / 60"
| "rad_per Arcsec = pi / 180 / 60 / 60"

definition convert :: "angle_unit \<Rightarrow> angle_unit \<Rightarrow> real \<Rightarrow> real" where
  "convert u v x = x * (rad_per u / rad_per v)"

text \<open>An astropy \<^verbatim>\<open>Angle\<close>: a magnitude and its angular unit, with the two attributes the
  source reads: \<^verbatim>\<open>.cgs\<close> (the angle in radians) and \<^verbatim>\<open>.deg\<close> (its magnitude in degrees).\<close>

datatype angle = Angle real angle_unit

fun cgs :: "angle \<Rightarrow> real" where
  "cgs (Angle x u) = convert u Radian x"

fun deg :: "angle \<Rightarrow> real" where
  "deg (Angle x u) = convert u Degree x"

text \<open>A unit attached to an array is angular or of another physical type; \<open>Meter\<close>
  stands for the latter.\<close>

datatype units = Angular angle_unit | Meter

subsection \<open>Arrays\<close>

text \<open>A numpy array of dimension 0, 1 or 2; a matrix is the list of its rows.\<close>

datatype ndarray = Arr0 real | Arr1 "real list" | Arr2 "real list list"

fun map_ndarray :: "(real \<Rightarrow> real) \<Rightarrow> ndarray \<Rightarrow> ndarray" where
  "map_ndarray f (Arr0 x) = Arr0 (f x)"
| "map_ndarray f (Arr1 v) = Arr1 (map f v)"
| "map_ndarray f (Arr2 m) = Arr2 (map (map f) m)"

fun elements :: "ndarray \<Rightarrow> real list" where
  "elements (Arr0 x) = [x]"
| "elements (Arr1 v) = v"
| "elements (Arr2 m) = concat m"

text \<open>An argument of the two functions: a bare array, or an astropy \<^verbatim>\<open>Quantity\<close>,
  an array with a unit (\<^verbatim>\<open>np.array([1000, 150]) * u.arcsec\<close>).\<close>

datatype operand = Plain ndarray | Quantity ndarray units

fun collect :: "(error + 'a) list \<Rightarrow> error + 'a list" where
  "collect [] = Inr []"
| "collect (Inl e # rs) = Inl e"
| "collect (Inr x # rs) = (case collect rs of Inl e \<Rightarrow> Inl e | Inr xs \<Rightarrow> Inr (x # xs))"

text \<open>\<^verbatim>\<open>np.dot(a, m)\<close> for a matrix \<open>m\<close>: a scalar multiplies the matrix, a vector is
  multiplied from the left, and each row of a matrix is.  The lengths must agree.\<close>

definition vecmat :: "real list \<Rightarrow> real list list \<Rightarrow> error + real list" where
  "vecmat v m =
     (if length v = length m
      then Inr (foldr (\<lambda>(x, row) acc. map2 (+) (map ((*) x) row) acc) (zip v m)
                  (replicate (case m of [] \<Rightarrow> 0 | row # _ \<Rightarrow> length row) 0))
      else Inl ValueError)"

fun np_dot :: "ndarray \<Rightarrow> real list list \<Rightarrow> error + ndarray" where
  "np_dot (Arr0 s) m = Inr (Arr2 (map (map ((*) s)) m))"
| "np_dot (Arr1 v) m = (case vecmat v m of Inl e \<Rightarrow> Inl e | Inr r \<Rightarrow> Inr (Arr1 r))"
| "np_dot (Arr2 a) m =
     (case collect (map (\<lambda>r. vecmat r m) a) of Inl e \<Rightarrow> Inl e | Inr rs \<Rightarrow> Inr (Arr2 rs))"

text \<open>Elementwise operations of an array with a one-dimensional array \<open>w\<close>, under
  numpy's broadcasting: the last axes must have equal lengths, or one of them length 1.\<close>

definition broadcast :: "(real \<Rightarrow> real \<Rightarrow> real) \<Rightarrow> real list \<Rightarrow> real list \<Rightarrow> error + real list" where
  "broadcast f v w =
     (if length v = length w then Inr (map2 f v w)
      else case (v, w) of
             ([x], _) \<Rightarrow> Inr (map (f x) w)
           | (_, [y]) \<Rightarrow> Inr (map (\<lambda>x. f x y) v)
           | _ \<Rightarrow> Inl ValueError)"

fun with_vector :: "(real \<Rightarrow> real \<Rightarrow> real) \<Rightarrow> ndarray \<Rightarrow> real list \<Rightarrow> error + ndarray" where
  "with_vector f (Arr0 s) w = Inr (Arr1 (map (f s) w))"
| "with_vector f (Arr1 v) w =
     (case broadcast f v w of Inl e \<Rightarrow> Inl e | Inr r \<Rightarrow> Inr (Arr1 r))"
| "with_vector f (Arr2 m) w =
     (case collect (map (\<lambda>r. broadcast f r w) m) of Inl e \<Rightarrow> Inl e | Inr rs \<Rightarrow> Inr (Arr2 rs))"

text \<open>\<^verbatim>\<open>np.dot\<close> and the product with a bare array keep the unit of a \<^verbatim>\<open>Quantity\<close>.\<close>

fun dot :: "operand \<Rightarrow> real list list \<Rightarrow> error + operand" where
  "dot (Plain a) m = (case np_dot a m of Inl e \<Rightarrow> Inl e | Inr r \<Rightarrow> Inr (Plain r))"
| "dot (Quantity a u) m = (case np_dot a m of Inl e \<Rightarrow> Inl e | Inr r \<Rightarrow> Inr (Quantity r u))"

fun multiply :: "operand \<Rightarrow> real list \<Rightarrow> error + operand" where
  "multiply (Plain a) w = (case with_vector (*) a w of Inl e \<Rightarrow> Inl e | Inr r \<Rightarrow> Inr (Plain r))"
| "multiply (Quantity a u) w =
     (case with_vector (*) a w of Inl e \<Rightarrow> Inl e | Inr r \<Rightarrow> Inr (Quantity r u))"

text \<open>The right operand of a sum whose left operand is a \<^verbatim>\<open>Quantity\<close> in degrees:
  astropy converts an angular unit to degrees, refuses any other unit, and lets a bare
  array through only when all its elements are zero.\<close>

fun in_degrees :: "operand \<Rightarrow> error + ndarray" where
  "in_degrees (Quantity a (Angular u)) = Inr (map_ndarray (convert u Degree) a)"
| "in_degrees (Quantity a Meter) = Inl UnitConversionError"
| "in_degrees (Plain a) =
     (if list_all (\<lambda>x. x = 0) (elements a) then Inr a else Inl UnitConversionError)"

subsection \<open>Binary64 arithmetic\<close>

text \<open>Rounding to the nearest integer, a tie going to the even one.\<close>

definition round_half_even :: "real \<Rightarrow> int" where
  "round_half_even r =
     (let f = \<lfloor>r\<rfloor>
      in if r - of_int f < 1 / 2 then f
         else if r - of_int f > 1 / 2 then f + 1
         else if even f then f else f + 1)"

text \<open>The doubles around a number \<open>x\<close> other than zero are the multiples of
  \<open>quantum x\<close>: 53 significant bits, and the spacing of the subnormal numbers below
  \<open>2 powr - 1022\<close>.  \<open>fl x\<close> is the double nearest to \<open>x\<close>, the result of an addition
  whose exact value is \<open>x\<close>.  At \<open>overflow_threshold\<close> and beyond, binary64 gives
  \<open>inf\<close>, which the model does not have: there \<open>fl\<close> is not the program's rounding.\<close>

definition quantum :: "real \<Rightarrow> real" where
  "quantum x = 2 powr of_int (max \<lfloor>log 2 \<bar>x\<bar>\<rfloor> (- 1022) - 52)"

definition fl :: "real \<Rightarrow> real" where
  "fl x = (if x = 0 then 0 else of_int (round_half_even (x / quantum x)) * quantum x)"

definition overflow_threshold :: real where
  "overflow_threshold = 2 ^ 1024 - 2 ^ 970"

text \<open>C's \<^verbatim>\<open>fmod\<close>: the exact remainder of the quotient truncated towards zero, with
  the sign of \<open>x\<close>.  The source divides by 360 only.\<close>

definition fmod :: "real \<Rightarrow> real \<Rightarrow> real" where
  "fmod x y = x - y * of_int (if 0 \<le> x / y then \<lfloor>x / y\<rfloor> else \<lceil>x / y\<rceil>)"

text \<open>\<^verbatim>\<open>np.mod\<close>, the remainder with the sign of the divisor: numpy takes \<^verbatim>\<open>fmod\<close>
  and, where the remainder is not zero and its sign is not the divisor's, adds the divisor,
  in binary64.\<close>

definition np_mod :: "real \<Rightarrow> real \<Rightarrow> real" where
  "np_mod x y =
     (let m = fmod x y
      in if m \<noteq> 0 \<and> ((y < 0) \<noteq> (m < 0)) then fl (m + y) else m)"

subsection \<open>The astronomy libraries\<close>

text \<open>What \<^verbatim>\<open>get_sun\<close> returns: a coordinate with the attributes \<^verbatim>\<open>ra\<close> and \<^verbatim>\<open>dec\<close>.\<close>

record sky_coord =
  ra :: angle
  dec :: angle

text \<open>\<open>'t\<close> is what the caller passes as a time, \<open>'d\<close> what \<^verbatim>\<open>parse_time\<close> returns and
  \<open>'a\<close> astropy's time.\<close>

record ('t, 'd, 'a) libs =
  parse_time :: "'t \<Rightarrow> error + 'd"
  Time :: "'d \<Rightarrow> error + 'a"
  get_sun :: "'a \<Rightarrow> error + sky_coord"
  solar_north :: "'t \<Rightarrow> error + angle"

subsection \<open>The two functions of the notebook\<close>

definition get_sky_position :: "('t, 'd, 'a) libs \<Rightarrow> 't \<Rightarrow> operand \<Rightarrow> error + operand" where
  "get_sky_position L time offset =
     (case parse_time L time of Inl e \<Rightarrow> Inl e | Inr start_date \<Rightarrow>
      case Time L start_date of Inl e \<Rightarrow> Inl e | Inr astro_time \<Rightarrow>
      case get_sun L astro_time of Inl e \<Rightarrow> Inl e | Inr astro_sun_pos \<Rightarrow>
      case solar_north L time of Inl e \<Rightarrow> Inl e | Inr north \<Rightarrow>
        let sun_np = cgs north;
            sun_pos = [deg (ra astro_sun_pos), deg (dec astro_sun_pos)];
            rotMatrix = [[cos sun_np, sin sun_np],
                         [- sin sun_np, cos sun_np]]
        in
      case dot offset rotMatrix of Inl e \<Rightarrow> Inl e | Inr delta_offset \<Rightarrow>
      case multiply delta_offset [1 / cos (convert Degree Radian (sun_pos ! 1)), 1] of
        Inl e \<Rightarrow> Inl e | Inr delta_offset \<Rightarrow>
      case multiply delta_offset [- 1, 1] of Inl e \<Rightarrow> Inl e | Inr delta_offset \<Rightarrow>
      case in_degrees delta_offset of Inl e \<Rightarrow> Inl e | Inr d \<Rightarrow>
      case with_vector (\<lambda>x s. s + x) d sun_pos of Inl e \<Rightarrow> Inl e
      | Inr sky_position \<Rightarrow> Inr (Quantity sky_position (Angular Degree)))"

definition get_nustar_roll :: "('t, 'd, 'a) libs \<Rightarrow> 't \<Rightarrow> operand \<Rightarrow> error + operand" where
  "get_nustar_roll L time angle =
     (case parse_time L time of Inl e \<Rightarrow> Inl e | Inr start_date \<Rightarrow>
      case Time L start_date of Inl e \<Rightarrow> Inl e | Inr astro_time \<Rightarrow>
      case solar_north L time of Inl e \<Rightarrow> Inl e | Inr north \<Rightarrow>
        let sun_np = deg north in
      case in_degrees angle of Inl e \<Rightarrow> Inl e | Inr a \<Rightarrow>
        Inr (Quantity (map_ndarray (\<lambda>x. np_mod (fl (sun_np + x)) 360) a) (Angular Degree)))"

subsection \<open>Dates and the midpoint of a dwell\<close>

text \<open>Python's \<^verbatim>\<open>datetime\<close> and \<^verbatim>\<open>timedelta\<close>, with the arithmetic of the standard
  library: the difference of two datetimes, the product of a timedelta with a float
  (given by its integer ratio, \<open>0.5 = 1 / 2\<close>, rounded half to even to a whole
  microsecond) and the sum of a datetime and a timedelta.\<close>

record datetime =
  year :: int
  month :: int
  day :: int
  hour :: int
  minute :: int
  second :: int
  microsecond :: int

record timedelta =
  days :: int
  seconds :: int
  microseconds :: int

definition is_leap :: "int \<Rightarrow> bool" where
  "is_leap y = (y mod 4 = 0 \<and> (y mod 100 \<noteq> 0 \<or> y mod 400 = 0))"

definition days_before_year :: "int \<Rightarrow> int" where
  "days_before_year y' = (let y = y' - 1 in y * 365 + y div 4 - y div 100 + y div 400)"

definition DAYS_IN_MONTH :: "int list" where
  "DAYS_IN_MONTH = [-1, 31, 28, 31, 30, 31, 30, 31, 31, 30, 31, 30, 31]"

definition DAYS_BEFORE_MONTH :: "int list" where
  "DAYS_BEFORE_MONTH = [-1, 0, 31, 59, 90, 120, 151, 181, 212, 243, 273, 304, 334]"

definition days_before_month :: "int \<Rightarrow> int \<Rightarrow> int" where
  "days_before_month y m = DAYS_BEFORE_MONTH ! nat m + (if m > 2 \<and> is_leap y then 1 else 0)"

definition ymd2ord :: "int \<Rightarrow> int \<Rightarrow> int \<Rightarrow> int" where
  "ymd2ord y m d = days_before_year y + days_before_month y m + d"

definition ord2ymd :: "int \<Rightarrow> int \<times> int \<times> int" where
  "ord2ymd n0 =
     (let n = n0 - 1;
          n400 = n div 146097; n = n mod 146097;
          y = n400 * 400 + 1;
          n100 = n div 36524; n = n mod 36524;
          n4 = n div 1461; n = n mod 1461;
          n1 = n div 365; n = n mod 365;
          y = y + n100 * 100 + n4 * 4 + n1
      in if n1 = 4 \<or> n100 = 4 then (y - 1, 12, 31)
         else
           let leapyear = (n1 = 3 \<and> (n4 \<noteq> 24 \<or> n100 = 3));
               m = (n + 50) div 32;
               preceding = DAYS_BEFORE_MONTH ! nat m + (if m > 2 \<and> leapyear then 1 else 0)
           in if preceding > n
              then (y, m - 1,
                    n - (preceding - (DAYS_IN_MONTH ! nat (m - 1)
                           + (if m - 1 = 2 \<and> leapyear then 1 else 0))) + 1)
              else (y, m, n - preceding + 1))"

definition toordinal :: "datetime \<Rightarrow> int" where
  "toordinal d = ymd2ord (year d) (month d) (day d)"

text \<open>The constructor of \<^verbatim>\<open>timedelta\<close> normalises seconds and microseconds and
  refuses more than 999999999 days.\<close>

definition mk_timedelta :: "int \<Rightarrow> int \<Rightarrow> int \<Rightarrow> error + timedelta" where
  "mk_timedelta d s us =
     (let s1 = s + us div 1000000; us1 = us mod 1000000;
          d1 = d + s1 div 86400; s2 = s1 mod 86400
      in if \<bar>d1\<bar> > 999999999 then Inl OverflowError
         else Inr \<lparr>days = d1, seconds = s2, microseconds = us1\<rparr>)"

definition datetime_sub :: "datetime \<Rightarrow> datetime \<Rightarrow> error + timedelta" where
  "datetime_sub self other =
     (let days1 = toordinal self; days2 = toordinal other;
          secs1 = second self + minute self * 60 + hour self * 3600;
          secs2 = second other + minute other * 60 + hour other * 3600
      in mk_timedelta (days1 - days2) (secs1 - secs2) (microsecond self - microsecond other))"

definition divide_and_round :: "int \<Rightarrow> int \<Rightarrow> int" where
  "divide_and_round a b =
     (let q = a div b; r = 2 * (a mod b);
          greater_than_half = (if b > 0 then r > b else r < b)
      in if greater_than_half \<or> (r = b \<and> q mod 2 = 1) then q + 1 else q)"

definition to_microseconds :: "timedelta \<Rightarrow> int" where
  "to_microseconds td = (days td * 86400 + seconds td) * 1000000 + microseconds td"

definition timedelta_mul :: "timedelta \<Rightarrow> int \<times> int \<Rightarrow> error + timedelta" where
  "timedelta_mul td ratio =
     (case ratio of (a, b) \<Rightarrow> mk_timedelta 0 0 (divide_and_round (to_microseconds td * a) b))"

definition datetime_add :: "datetime \<Rightarrow> timedelta \<Rightarrow> error + datetime" where
  "datetime_add self other =
     (case mk_timedelta (toordinal self + days other)
             (hour self * 3600 + minute self * 60 + second self + seconds other)
             (microsecond self + microseconds other) of
        Inl e \<Rightarrow> Inl e
      | Inr delta \<Rightarrow>
          if 0 < days delta \<and> days delta \<le> 3652059
          then (case ord2ymd (days delta) of (y, m, d) \<Rightarrow>
                  Inr \<lparr>year = y, month = m, day = d,
                       hour = seconds delta div 3600,
                       minute = seconds delta mod 3600 div 60,
                       second = seconds delta mod 3600 mod 60,
                       microsecond = microseconds delta\<rparr>)
          else Inl OverflowError)"

text \<open>A time as the caller passes it: a string such as \<^verbatim>\<open>'2016-07-03T10:33:10'\<close> or a
  datetime.\<close>

datatype pytime = TimeString string | TimeDatetime datetime

text \<open>The last cell of the notebook derives the aim time from the start and the end of
  the dwell: \<^verbatim>\<open>dt = end_date - start_date; aim_time = start_date + dt*0.5\<close>.\<close>

definition aim_time :: "(pytime, datetime, 'a) libs \<Rightarrow> string \<Rightarrow> string \<Rightarrow> error + datetime" where
  "aim_time L dwell_start dwell_end =
     (case parse_time L (TimeString dwell_start) of Inl e \<Rightarrow> Inl e | Inr start_date \<Rightarrow>
      case parse_time L (TimeString dwell_end) of Inl e \<Rightarrow> Inl e | Inr end_date \<Rightarrow>
      case datetime_sub end_date start_date of Inl e \<Rightarrow> Inl e | Inr dt \<Rightarrow>
      case timedelta_mul dt (1, 2) of Inl e \<Rightarrow> Inl e | Inr half \<Rightarrow>
        datetime_add start_date half)"

subsection \<open>An instance of the libraries\<close>

text \<open>The theorems below hold for all libraries.  To exercise them, \<open>example_libs\<close>
  parses the three strings of the notebook, passes a datetime through, and answers every
  query with a Sun at right ascension \<open>120\<close> degrees and declination \<open>arccos (12/13)\<close>
  (about \<open>22.6\<close> degrees) whose north pole has the position angle \<open>arcsin (7/25)\<close>
  (about \<open>16.3\<close> degrees): angles whose sine and cosine are rational.\<close>

definition notebook_times :: "string \<Rightarrow> error + datetime" where
  "notebook_times s =
     (if s = ''2016-07-26T19:53:15.00''
      then Inr \<lparr>year = 2016, month = 7, day = 26, hour = 19, minute = 53, second = 15,
                microsecond = 0\<rparr>
      else if s = ''2016-07-26T19:22:10''
      then Inr \<lparr>year = 2016, month = 7, day = 26, hour = 19, minute = 22, second = 10,
                microsecond = 0\<rparr>
      else if s = ''2016-07-26T20:24:20''
      then Inr \<lparr>year = 2016, month = 7, day = 26, hour = 20, minute = 24, second = 20,
                microsecond = 0\<rparr>
      else Inl (Raised ''ValueError''))"

definition example_parse :: "pytime \<Rightarrow> error + datetime" where
  "example_parse t = (case t of TimeString s \<Rightarrow> notebook_times s | TimeDatetime d \<Rightarrow> Inr d)"

definition example_libs :: "(pytime, datetime, datetime) libs" where
  "example_libs =
     \<lparr>parse_time = example_parse,
      Time = Inr,
      get_sun = (\<lambda>a. Inr \<lparr>ra = Angle 120 Degree, dec = Angle (arccos (12 / 13)) Radian\<rparr>),
      solar_north = (\<lambda>t. case example_parse t of Inl e \<Rightarrow> Inl e
                           | Inr d \<Rightarrow> Inr (Angle (arcsin (7 / 25)) Radian))\<rparr>"

text \<open>\<open>notebook_libs\<close> differs from \<open>example_libs\<close> in the position angle of the
  north pole: it is the double \<open>8.865884432089103\<close> degrees, the angle that the roll
  \<open>98.8658844320891\<close> printed in the notebook for 90 degrees comes from.\<close>

definition notebook_north :: real where
  "notebook_north = 155970288377603 / 17592186044416"

definition notebook_libs :: "(pytime, datetime, datetime) libs" where
  "notebook_libs = example_libs\<lparr>solar_north := \<lambda>t. Inr (Angle notebook_north Degree)\<rparr>"

section \<open>Properties\<close>

subsection \<open>Units\<close>

lemma rad_per_pos: "0 < rad_per u"
  by (cases u) simp_all

lemma convert_add: "convert u v (x + y) = convert u v x + convert u v y"
  by (simp add: convert_def distrib_right add_divide_distrib)

lemma convert_minus: "convert u v (- x) = - convert u v x"
  by (simp add: convert_def)

lemma convert_inverse: "convert u v (convert v u x) = x"
  using rad_per_pos[of u] rad_per_pos[of v] by (simp add: convert_def)

subsection \<open>Rounding and the remainder\<close>

lemma round_half_even_of_int: "round_half_even (of_int k) = k"
  by (simp add: round_half_even_def)

lemma round_half_even_le: "r \<le> of_int k \<Longrightarrow> round_half_even r \<le> k"
proof -
  assume a: "r \<le> of_int k"
  show ?thesis
  proof (cases "r = of_int k")
    case True
    then show ?thesis by (simp add: round_half_even_of_int)
  next
    case False
    with a have "r < of_int k" by simp
    then have "\<lfloor>r\<rfloor> < k" by (simp add: floor_less_iff)
    then have "\<lfloor>r\<rfloor> + 1 \<le> k" by simp
    then show ?thesis by (auto simp: round_half_even_def Let_def)
  qed
qed

lemma round_half_even_ge: "of_int k \<le> r \<Longrightarrow> k \<le> round_half_even r"
proof -
  assume "of_int k \<le> r"
  then have "k \<le> \<lfloor>r\<rfloor>" by (simp add: le_floor_iff)
  then show ?thesis by (auto simp: round_half_even_def Let_def)
qed

lemma quantum_pos: "0 < quantum x"
  by (simp add: quantum_def)

lemma fl_nonneg: "0 \<le> x \<Longrightarrow> 0 \<le> fl x"
proof -
  assume "0 \<le> x"
  then have "of_int 0 \<le> x / quantum x" using quantum_pos[of x] by simp
  then have "0 \<le> round_half_even (x / quantum x)" by (rule round_half_even_ge)
  then show ?thesis using quantum_pos[of x] by (simp add: fl_def)
qed

text \<open>Rounding within a binade: for \<open>2 powr e \<le> \<bar>x\<bar> < 2 powr (e + 1)\<close> the quantum is
  \<open>2 powr (e - 52)\<close>.\<close>

lemma fl_binade:
  assumes "x \<noteq> 0" and "2 powr of_int e \<le> \<bar>x\<bar>" and "\<bar>x\<bar> < 2 powr of_int (e + 1)"
  shows "fl x = of_int (round_half_even (x / 2 powr of_int (max e (- 1022) - 52)))
                  * 2 powr of_int (max e (- 1022) - 52)"
proof -
  have "\<lfloor>log 2 \<bar>x\<bar>\<rfloor> = e"
    using assms by (subst floor_log_eq_powr_iff) (auto simp: add.commute)
  then show ?thesis using assms(1) by (simp add: fl_def quantum_def)
qed

text \<open>360 is a double, and no number below it is rounded above it.\<close>

lemma fl_le_360:
  assumes "0 < x" and "x \<le> 360"
  shows "fl x \<le> 360"
proof -
  define k where "k = max \<lfloor>log 2 \<bar>x\<bar>\<rfloor> (- 1022) - 52"
  have "log 2 x < log 2 512" using assms by simp
  also have "log 2 512 = 9"
  proof -
    have "(512 :: real) = 2 powr 9" by simp
    then show ?thesis by (simp only: log_powr_cancel)
  qed
  finally have "\<lfloor>log 2 x\<rfloor> < 9" by (simp add: floor_less_iff)
  then have k: "k \<le> - 44" using assms(1) by (simp add: k_def)
  have q: "quantum x = 2 powr of_int k" by (simp add: quantum_def k_def)
  have "2 powr of_int (- k) = (2 :: real) ^ nat (- k)"
    using k powr_real_of_int[of 2 "- k"] by simp
  then have K: "360 / quantum x = of_int (360 * 2 ^ nat (- k))"
    by (simp add: q powr_minus field_simps)
  have "x / quantum x \<le> 360 / quantum x"
    using assms(2) quantum_pos[of x] by (simp add: divide_right_mono)
  then have "round_half_even (x / quantum x) \<le> 360 * 2 ^ nat (- k)"
    unfolding K by (rule round_half_even_le)
  then have "of_int (round_half_even (x / quantum x)) \<le> (of_int (360 * 2 ^ nat (- k)) :: real)"
    by (simp only: of_int_le_iff)
  then have "of_int (round_half_even (x / quantum x)) * quantum x \<le> 360 / quantum x * quantum x"
    unfolding K using quantum_pos[of x] by (simp add: mult_right_mono)
  then show ?thesis using assms(1) quantum_pos[of x] by (simp add: fl_def)
qed

lemma fmod_360:
  "(0 \<le> x \<longrightarrow> 0 \<le> fmod x 360 \<and> fmod x 360 < 360)
   \<and> (x < 0 \<longrightarrow> - 360 < fmod x 360 \<and> fmod x 360 \<le> 0)"
proof -
  have a: "of_int \<lfloor>x / 360\<rfloor> \<le> x / 360" "x / 360 < of_int \<lfloor>x / 360\<rfloor> + 1" by linarith+
  have b: "of_int \<lfloor>- (x / 360)\<rfloor> \<le> - (x / 360)" "- (x / 360) < of_int \<lfloor>- (x / 360)\<rfloor> + 1"
    by linarith+
  have pos: "0 \<le> fmod x 360 \<and> fmod x 360 < 360" if "0 \<le> x"
    using a that by (simp add: fmod_def field_simps)
  have neg: "- 360 < fmod x 360 \<and> fmod x 360 \<le> 0" if "x < 0"
  proof -
    have "fmod x 360 = x + 360 * of_int \<lfloor>- (x / 360)\<rfloor>"
      using that by (simp add: fmod_def ceiling_def)
    then show ?thesis using b by linarith
  qed
  show ?thesis using pos neg by blast
qed

lemma fmod_360_bounds: "- 360 < fmod x 360 \<and> fmod x 360 < 360"
  using fmod_360[of x] by (cases "0 \<le> x") auto

lemma np_mod_range: "0 \<le> np_mod x 360 \<and> np_mod x 360 \<le> 360"
proof (cases "fmod x 360 < 0")
  case True
  then have "0 < fmod x 360 + 360" "fmod x 360 + 360 \<le> 360"
    using fmod_360[of x] by (cases "0 \<le> x"; simp)+
  then have "0 \<le> fl (fmod x 360 + 360)" "fl (fmod x 360 + 360) \<le> 360"
    using fl_nonneg[of "fmod x 360 + 360"] fl_le_360[of "fmod x 360 + 360"] by simp_all
  then show ?thesis using True by (simp add: np_mod_def Let_def)
next
  case False
  then have "0 \<le> fmod x 360" "fmod x 360 < 360"
    using fmod_360[of x] by (cases "0 \<le> x"; simp)+
  then show ?thesis using False by (simp add: np_mod_def Let_def)
qed


text \<open>The sums and remainders of the instances.\<close>

lemma fl_tiny: "fl (- 1 / 562949953421312) = - 1 / 562949953421312"
  by (subst fl_binade[where e = "- 49"])
     (simp_all add: powr_neg_numeral round_half_even_def)

lemma fl_below_360: "fl (- 1 / 562949953421312 + 360) = 360"
  by (subst fl_binade[where e = 8])
     (simp_all add: powr_neg_numeral round_half_even_def)

lemma fl_north_90:
  "fl (155970288377603 / 17592186044416 + 90) = 1739267032375043 / 17592186044416"
  by (subst fl_binade[where e = 6])
     (simp_all add: powr_neg_numeral round_half_even_def)





lemma np_mod_tiny: "np_mod (- 1 / 562949953421312) 360 = 360"
proof -
  have "\<lceil>- 1 / 562949953421312 / (360 :: real)\<rceil> = 0"
    by (simp add: ceiling_eq_iff)
  then have "fmod (- 1 / 562949953421312) 360 = - 1 / 562949953421312"
    by (simp add: fmod_def)
  then show ?thesis using fl_below_360 by (simp add: np_mod_def)
qed

lemma np_mod_north_90:
  "np_mod (1739267032375043 / 17592186044416) 360 = 1739267032375043 / 17592186044416"
  by (simp add: np_mod_def fmod_def)


lemma np_mod_north_450:
  "np_mod (8072454008364803 / 17592186044416) 360 = 1739267032375043 / 17592186044416"
  by (simp add: np_mod_def fmod_def)


subsection \<open>The sky position of a two-component offset\<close>

lemma get_sky_position_vector:
  assumes "parse_time L t = Inr d" and "Time L d = Inr a" and "get_sun L a = Inr s"
    and "solar_north L t = Inr n"
  shows "get_sky_position L t (Quantity (Arr1 [x, y]) (Angular u)) =
     Inr (Quantity (Arr1
       [deg (ra s) + convert u Degree
            (- ((x * cos (cgs n) - y * sin (cgs n)) / cos (convert Degree Radian (deg (dec s))))),
        deg (dec s) + convert u Degree (x * sin (cgs n) + y * cos (cgs n))]) (Angular Degree))"
  using assms by (simp add: get_sky_position_def Let_def vecmat_def broadcast_def convert_def)

subsection \<open>The instance\<close>

lemma example_parse_literal:
  "parse_time example_libs (TimeString ''2016-07-26T19:53:15.00'') =
     Inr \<lparr>year = 2016, month = 7, day = 26, hour = 19, minute = 53, second = 15,
          microsecond = 0\<rparr>"
  by (simp add: example_libs_def example_parse_def notebook_times_def)

lemma example_Time: "Time example_libs d = Inr d"
  by (simp add: example_libs_def)

lemma example_get_sun:
  "get_sun example_libs a = Inr \<lparr>ra = Angle 120 Degree, dec = Angle (arccos (12 / 13)) Radian\<rparr>"
  by (simp add: example_libs_def)

lemma example_solar_north:
  "solar_north example_libs (TimeString ''2016-07-26T19:53:15.00'') =
     Inr (Angle (arcsin (7 / 25)) Radian)"
  by (simp add: example_libs_def example_parse_def notebook_times_def)

lemma example_sin: "sin (cgs (Angle (arcsin (7 / 25)) Radian)) = 7 / 25"
  by (simp add: convert_def)

lemma example_cos: "cos (cgs (Angle (arcsin (7 / 25)) Radian)) = 24 / 25"
proof -
  have "sqrt (1 - (7 / 25)\<^sup>2) = (24 / 25 :: real)"
    by (rule real_sqrt_unique) (simp_all add: power2_eq_square)
  then show ?thesis by (simp add: convert_def cos_arcsin)
qed

lemma example_cos_dec:
  "cos (convert Degree Radian (deg (Angle (arccos (12 / 13)) Radian))) = 12 / 13"
  by (simp add: convert_inverse)

lemmas example_facts = example_sin example_cos example_cos_dec

lemma example_parse_start:
  "parse_time example_libs (TimeString ''2016-07-26T19:22:10'') =
     Inr \<lparr>year = 2016, month = 7, day = 26, hour = 19, minute = 22, second = 10,
          microsecond = 0\<rparr>"
  by (simp add: example_libs_def example_parse_def notebook_times_def)

lemma example_parse_end:
  "parse_time example_libs (TimeString ''2016-07-26T20:24:20'') =
     Inr \<lparr>year = 2016, month = 7, day = 26, hour = 20, minute = 24, second = 20,
          microsecond = 0\<rparr>"
  by (simp add: example_libs_def example_parse_def notebook_times_def)

lemma example_parse_datetime: "\<forall>d. parse_time example_libs (TimeDatetime d) = Inr d"
  by (simp add: example_libs_def example_parse_def)

lemma example_instant:
  "\<forall>t t'. parse_time example_libs t = parse_time example_libs t' \<longrightarrow>
     solar_north example_libs t = solar_north example_libs t'"
  by (simp add: example_libs_def)

subsection \<open>Offsets that are refused\<close>

lemma collect_error: "\<exists>r\<in>set rs. isl r \<Longrightarrow> isl (collect rs)"
  by (induction rs rule: collect.induct) (auto split: sum.splits)

lemma vecmat_length: "length v \<noteq> length m \<Longrightarrow> vecmat v m = Inl ValueError"
  by (simp add: vecmat_def)

lemma np_dot_rows:
  assumes "\<exists>r\<in>set rows. length r \<noteq> length m"
  shows "isl (np_dot (Arr2 rows) m)"
proof -
  from assms obtain r where r: "r \<in> set rows" "length r \<noteq> length m" by blast
  then have "isl (vecmat r m)" by (simp add: vecmat_length)
  with r(1) have "\<exists>r\<in>set (map (\<lambda>r. vecmat r m) rows). isl r"
    by auto
  then have "isl (collect (map (\<lambda>r. vecmat r m) rows))" by (rule collect_error)
  then show ?thesis by (cases "collect (map (\<lambda>r. vecmat r m) rows)") auto
qed

lemma dot_error: "isl (np_dot a m) \<Longrightarrow> isl (dot (Plain a) m) \<and> isl (dot (Quantity a u) m)"
  by (auto split: sum.splits)

lemma dot_Quantity: "dot (Quantity a u) m = Inr r \<Longrightarrow> \<exists>b. r = Quantity b u"
  by (auto split: sum.splits)

lemma multiply_Quantity: "multiply (Quantity a u) w = Inr r \<Longrightarrow> \<exists>b. r = Quantity b u"
  by (auto split: sum.splits)

lemma get_sky_position_dot_error:
  assumes "\<And>c s :: real. isl (dot offset [[c, s], [- s, c]])"
  shows "isl (get_sky_position L t offset)"
proof -
  have ne: "dot offset [[c, s], [- s, c]] \<noteq> Inr x" for c s :: real and x
    using assms[of c s] by auto
  show ?thesis
    by (auto simp: get_sky_position_def Let_def ne split: sum.splits)
qed

lemma get_sky_position_length:
  assumes "length v \<noteq> 2"
  shows "isl (get_sky_position L t (Plain (Arr1 v)))"
    and "isl (get_sky_position L t (Quantity (Arr1 v) u))"
  using assms by (auto simp: get_sky_position_def Let_def vecmat_def split: sum.splits)

lemma get_sky_position_rows:
  assumes "\<exists>r\<in>set m. length r \<noteq> 2"
  shows "isl (get_sky_position L t (Plain (Arr2 m)))"
    and "isl (get_sky_position L t (Quantity (Arr2 m) u))"
proof -
  have "isl (np_dot (Arr2 m) [[c, s], [- s, c]])" for c s :: real
    by (rule np_dot_rows) (use assms in \<open>simp add: numeral_2_eq_2\<close>)
  then have "isl (dot (Plain (Arr2 m)) [[c, s], [- s, c]])"
    and "isl (dot (Quantity (Arr2 m) u) [[c, s], [- s, c]])" for c s :: real
    using dot_error by blast+
  then show "isl (get_sky_position L t (Plain (Arr2 m)))"
    and "isl (get_sky_position L t (Quantity (Arr2 m) u))"
    by (blast intro: get_sky_position_dot_error)+
qed

lemma get_sky_position_meter: "isl (get_sky_position L t (Quantity arr Meter))"
  by (auto simp: get_sky_position_def Let_def split: sum.splits
      dest!: dot_Quantity multiply_Quantity)

lemma rotation_zero:
  fixes x y c s :: real
  assumes "x * c - y * s = 0" and "x * s + y * c = 0" and "c\<^sup>2 + s\<^sup>2 = 1"
  shows "x = 0 \<and> y = 0"
proof -
  have "x * (c\<^sup>2 + s\<^sup>2) = c * (x * c - y * s) + s * (x * s + y * c)"
    by (simp add: algebra_simps power2_eq_square)
  then have x: "x = 0" by (simp only: assms)
  have "y * (c\<^sup>2 + s\<^sup>2) = c * (x * s + y * c) - s * (x * c - y * s)"
    by (simp add: algebra_simps power2_eq_square)
  then have y: "y = 0" by (simp only: assms)
  show ?thesis using x y by simp
qed

lemma get_sky_position_plain:
  assumes "parse_time L t = Inr d" and "Time L d = Inr a" and "get_sun L a = Inr s"
    and "solar_north L t = Inr n"
    and "cos (convert Degree Radian (deg (dec s))) \<noteq> 0" and "x \<noteq> 0 \<or> y \<noteq> 0"
  shows "get_sky_position L t (Plain (Arr1 [x, y])) = Inl UnitConversionError"
proof -
  have "\<not> (x * cos (cgs n) - y * sin (cgs n) = 0 \<and> x * sin (cgs n) + y * cos (cgs n) = 0)"
    using rotation_zero[of x "cos (cgs n)" y "sin (cgs n)"] assms(6) by auto
  then show ?thesis
    using assms(1-5) by (auto simp: get_sky_position_def Let_def vecmat_def broadcast_def)
qed

subsection \<open>The midpoint of the dwell of the notebook\<close>

lemma dwell_midpoint:
  "(case datetime_sub
           \<lparr>year = 2016, month = 7, day = 26, hour = 20, minute = 24, second = 20,
              microsecond = 0\<rparr>
           \<lparr>year = 2016, month = 7, day = 26, hour = 19, minute = 22, second = 10,
              microsecond = 0\<rparr> of
      Inl e \<Rightarrow> Inl e
    | Inr dt \<Rightarrow>
        (case timedelta_mul dt (1, 2) of
           Inl e \<Rightarrow> Inl e
         | Inr half \<Rightarrow>
             datetime_add
               \<lparr>year = 2016, month = 7, day = 26, hour = 19, minute = 22, second = 10,
                  microsecond = 0\<rparr> half))
   = Inr \<lparr>year = 2016, month = 7, day = 26, hour = 19, minute = 53, second = 15,
          microsecond = 0\<rparr>"
  by code_simp

section \<open>The claims\<close>

subsection \<open>The sky position\<close>

text \<open>
  Claim C1.  When the time parses, astropy accepts it and the two libraries answer, the
  sky position of an offset \<open>(x, y)\<close> with an angular unit is the Sun's \<open>(RA, Dec)\<close>
  plus the delta \<open>(- (x cos \<theta> - y sin \<theta>) / cos Dec, x sin \<theta> + y cos \<theta>)\<close>, where \<open>\<theta>\<close> is
  the position angle of the solar north pole: the offset is rotated counter-clockwise by
  \<open>\<theta>\<close>, its first component is divided by \<open>cos Dec\<close> and negated, and the delta,
  converted from the unit of the offset to degrees, is added to the Sun's position.
\<close>

theorem get_sky_position_rotated_offset:
  assumes "parse_time L t = Inr d" and "Time L d = Inr a" and "get_sun L a = Inr s"
    and "solar_north L t = Inr n"
  shows "get_sky_position L t (Quantity (Arr1 [x, y]) (Angular u)) =
     (let theta = cgs n; RA = deg (ra s); Dec = deg (dec s);
          delta_ra = - (x * cos theta - y * sin theta) / cos (convert Degree Radian Dec);
          delta_dec = x * sin theta + y * cos theta
      in Inr (Quantity (Arr1 [RA + convert u Degree delta_ra, Dec + convert u Degree delta_dec])
                (Angular Degree)))"
  unfolding get_sky_position_vector[OF assms] Let_def by (simp only: minus_divide_left)

text \<open>In the instance, the offset of the notebook, 1000 and 150 arcseconds, moves the
  pointing by \<open>- 994.5\<close> arcseconds in right ascension and \<open>424\<close> in declination.\<close>

theorem get_sky_position_rotated_offset_witness:
  "get_sky_position example_libs (TimeString ''2016-07-26T19:53:15.00'')
       (Quantity (Arr1 [1000, 150]) (Angular Arcsec)) =
     Inr (Quantity (Arr1 [120 - 1989 / 7200,
                          convert Radian Degree (arccos (12 / 13)) + 424 / 3600])
            (Angular Degree))"
  using get_sky_position_rotated_offset[OF example_parse_literal example_Time example_get_sun
      example_solar_north, of 1000 150 Arcsec]
  apply (simp only: Let_def example_facts sky_coord.simps)
  apply (simp add: convert_def)
  done

text \<open>
  Claim C2.  The sky position of the zero offset is the position of the Sun that
  \<^verbatim>\<open>get_sun\<close> returned, whatever the angular unit of the offset, and also when the zero
  offset has no unit.
\<close>

theorem get_sky_position_zero_offset:
  assumes "parse_time L t = Inr d" and "Time L d = Inr a" and "get_sun L a = Inr s"
    and "solar_north L t = Inr n"
  shows "get_sky_position L t (Quantity (Arr1 [0, 0]) (Angular u)) =
           Inr (Quantity (Arr1 [deg (ra s), deg (dec s)]) (Angular Degree))
       \<and> get_sky_position L t (Plain (Arr1 [0, 0])) =
           Inr (Quantity (Arr1 [deg (ra s), deg (dec s)]) (Angular Degree))"
  using assms by (simp add: get_sky_position_def Let_def vecmat_def broadcast_def convert_def)

theorem get_sky_position_zero_offset_witness:
  "get_sky_position example_libs (TimeString ''2016-07-26T19:53:15.00'')
       (Quantity (Arr1 [0, 0]) (Angular Arcsec)) =
     Inr (Quantity (Arr1 [120, convert Radian Degree (arccos (12 / 13))]) (Angular Degree))"
  using get_sky_position_zero_offset[OF example_parse_literal example_Time example_get_sun
      example_solar_north, of Arcsec]
  by (simp add: convert_def)




text \<open>
  Claim C7 says that the function fails whenever the offset has no angular unit or is not
  a vector of two components.  The function checks neither: it does the arithmetic, and an
  error arises only where numpy or astropy cannot do it.  A matrix with two columns is
  transformed row by row, and a zero offset without a unit is added to the Sun's position.
\<close>

theorem offset_check_counterexample:
  "get_sky_position example_libs (TimeString ''2016-07-26T19:53:15.00'')
       (Quantity (Arr2 [[1000, 150], [0, 0]]) (Angular Arcsec)) =
     Inr (Quantity (Arr2 [[120 - 1989 / 7200,
                           convert Radian Degree (arccos (12 / 13)) + 424 / 3600],
                          [120, convert Radian Degree (arccos (12 / 13))]])
            (Angular Degree))
   \<and> get_sky_position example_libs (TimeString ''2016-07-26T19:53:15.00'')
       (Plain (Arr1 [0, 0])) =
     Inr (Quantity (Arr1 [120, convert Radian Degree (arccos (12 / 13))]) (Angular Degree))"
proof -
  have "get_sky_position example_libs (TimeString ''2016-07-26T19:53:15.00'')
       (Quantity (Arr2 [[1000, 150], [0, 0]]) (Angular Arcsec)) =
     Inr (Quantity (Arr2 [[120 - 1989 / 7200,
                           convert Radian Degree (arccos (12 / 13)) + 424 / 3600],
                          [120, convert Radian Degree (arccos (12 / 13))]])
            (Angular Degree))"
    unfolding get_sky_position_def example_parse_literal example_Time example_get_sun
      example_solar_north sum.case Let_def sky_coord.simps nth_Cons_0 nth_Cons_Suc One_nat_def
      example_facts
    by (simp add: vecmat_def broadcast_def convert_def)
  moreover have "get_sky_position example_libs (TimeString ''2016-07-26T19:53:15.00'')
       (Plain (Arr1 [0, 0])) =
     Inr (Quantity (Arr1 [120, convert Radian Degree (arccos (12 / 13))]) (Angular Degree))"
    unfolding get_sky_position_def example_parse_literal example_Time example_get_sun
      example_solar_north sum.case Let_def sky_coord.simps
    by (simp add: vecmat_def broadcast_def convert_def)
  ultimately show ?thesis by simp
qed

text \<open>
  Claim C7, amended.  The function returns an error, and so no position, whenever the
  offset is a one-dimensional array whose length is not 2, a two-dimensional array whose
  rows do not have length 2, or carries a unit that is not angular; and, when the libraries
  answer and \<open>cos Dec\<close> is not zero, it raises \<^verbatim>\<open>UnitConversionError\<close> for a vector of
  two components without a unit that is not zero.
\<close>

theorem get_sky_position_rejects:
  "(length v \<noteq> 2 \<longrightarrow>
      isl (get_sky_position L t (Plain (Arr1 v)))
    \<and> isl (get_sky_position L t (Quantity (Arr1 v) u)))
   \<and> ((\<exists>r\<in>set m. length r \<noteq> 2) \<longrightarrow>
      isl (get_sky_position L t (Plain (Arr2 m)))
    \<and> isl (get_sky_position L t (Quantity (Arr2 m) u)))
   \<and> isl (get_sky_position L t (Quantity arr Meter))
   \<and> (parse_time L t = Inr d \<longrightarrow> Time L d = Inr a \<longrightarrow> get_sun L a = Inr s \<longrightarrow>
      solar_north L t = Inr n \<longrightarrow> cos (convert Degree Radian (deg (dec s))) \<noteq> 0 \<longrightarrow>
      x \<noteq> 0 \<or> y \<noteq> 0 \<longrightarrow>
      get_sky_position L t (Plain (Arr1 [x, y])) = Inl UnitConversionError)"
proof (intro conjI impI)
  show "isl (get_sky_position L t (Plain (Arr1 v)))" if "length v \<noteq> 2"
    using that by (rule get_sky_position_length)
  show "isl (get_sky_position L t (Quantity (Arr1 v) u))" if "length v \<noteq> 2"
    using that by (rule get_sky_position_length)
  show "isl (get_sky_position L t (Plain (Arr2 m)))" if "\<exists>r\<in>set m. length r \<noteq> 2"
    using that by (rule get_sky_position_rows)
  show "isl (get_sky_position L t (Quantity (Arr2 m) u))" if "\<exists>r\<in>set m. length r \<noteq> 2"
    using that by (rule get_sky_position_rows)
  show "isl (get_sky_position L t (Quantity arr Meter))"
    by (rule get_sky_position_meter)
  show "get_sky_position L t (Plain (Arr1 [x, y])) = Inl UnitConversionError"
    if "parse_time L t = Inr d" and "Time L d = Inr a" and "get_sun L a = Inr s"
      and "solar_north L t = Inr n" and "cos (convert Degree Radian (deg (dec s))) \<noteq> 0"
      and "x \<noteq> 0 \<or> y \<noteq> 0"
    using that by (rule get_sky_position_plain)
qed

theorem get_sky_position_rejects_witness:
  "isl (get_sky_position example_libs (TimeString ''2016-07-26T19:53:15.00'')
          (Plain (Arr1 [1000, 150, 0])))
   \<and> isl (get_sky_position example_libs (TimeString ''2016-07-26T19:53:15.00'')
          (Quantity (Arr1 [1000, 150, 0]) (Angular Arcsec)))
   \<and> isl (get_sky_position example_libs (TimeString ''2016-07-26T19:53:15.00'')
          (Plain (Arr2 [[1000, 150], [0]])))
   \<and> isl (get_sky_position example_libs (TimeString ''2016-07-26T19:53:15.00'')
          (Quantity (Arr2 [[1000, 150], [0]]) (Angular Arcsec)))
   \<and> isl (get_sky_position example_libs (TimeString ''2016-07-26T19:53:15.00'')
          (Quantity (Arr1 [1000, 150]) Meter))
   \<and> get_sky_position example_libs (TimeString ''2016-07-26T19:53:15.00'')
          (Plain (Arr1 [1000, 150])) = Inl UnitConversionError"
  using get_sky_position_rejects[of "[1000, 150, 0]" example_libs
      "TimeString ''2016-07-26T19:53:15.00''" "Angular Arcsec" "[[1000, 150], [0]]"
      "Arr1 [1000, 150]"
      "\<lparr>year = 2016, month = 7, day = 26, hour = 19, minute = 53, second = 15,
         microsecond = 0\<rparr>"
      "\<lparr>year = 2016, month = 7, day = 26, hour = 19, minute = 53, second = 15,
         microsecond = 0\<rparr>"
      "\<lparr>ra = Angle 120 Degree, dec = Angle (arccos (12 / 13)) Radian\<rparr>"
      "Angle (arcsin (7 / 25)) Radian" 1000 150]
    example_parse_literal example_Time example_get_sun example_solar_north example_cos_dec
  by simp

subsection \<open>The roll\<close>

lemma notebook_parse_literal:
  "parse_time notebook_libs (TimeString ''2016-07-26T19:53:15.00'') =
     Inr \<lparr>year = 2016, month = 7, day = 26, hour = 19, minute = 53, second = 15,
          microsecond = 0\<rparr>"
  by (simp add: notebook_libs_def example_parse_literal)

lemma notebook_Time: "Time notebook_libs d = Inr d"
  by (simp add: notebook_libs_def example_Time)

lemma notebook_solar_north: "solar_north notebook_libs t = Inr (Angle notebook_north Degree)"
  by (simp add: notebook_libs_def)

lemma get_nustar_roll_degrees:
  assumes "parse_time L t = Inr d" and "Time L d = Inr a"
    and "solar_north L t = Inr (Angle p Degree)"
  shows "get_nustar_roll L t (Quantity (Arr0 x) (Angular Degree)) =
           Inr (Quantity (Arr0 (np_mod (fl (p + x)) 360)) (Angular Degree))"
  using assms by (simp add: get_nustar_roll_def Let_def convert_def)

text \<open>
  Claim C4 says that the roll always lies in the half-open interval from 0 to 360.  The
  remainder of a sum just below zero is the sum plus 360, and binary64 rounds that to 360:
  with the north pole at \<open>8.865884432089103\<close> degrees and the angle
  \<open>- 8.865884432089105\<close> degrees, the next double, the sum is \<open>- 1 / 2 ^ 49\<close> and the
  roll returned is \<open>360\<close>.
\<close>

theorem roll_below_360_counterexample:
  "get_nustar_roll notebook_libs (TimeString ''2016-07-26T19:53:15.00'')
       (Quantity (Arr0 (- 4991049228083297 / 562949953421312)) (Angular Degree)) =
     Inr (Quantity (Arr0 360) (Angular Degree))
   \<and> \<not> (360 :: real) < 360"
proof -
  have "fl (notebook_north + - 4991049228083297 / 562949953421312) = - 1 / 562949953421312"
    using fl_tiny by (simp add: notebook_north_def)
  then show ?thesis
    unfolding get_nustar_roll_degrees[OF notebook_parse_literal notebook_Time
        notebook_solar_north]
    using np_mod_tiny by simp
qed

text \<open>
  Claim C4, amended.  When the time parses, astropy accepts it, \<^verbatim>\<open>solar_north\<close> answers
  \<open>p\<close> degrees and the sum with the angle \<open>x\<close>, in degrees, does not overflow, the roll
  is \<^verbatim>\<open>np.mod\<close> of the binary64 sum \<open>p + x\<close> and 360: with \<open>m\<close> the sum minus the
  whole multiple of 360 that brings it strictly between \<open>- 360\<close> and \<open>360\<close> with the sign
  of the sum, the roll is \<open>m\<close> where \<open>m\<close> is not negative and the rounded \<open>m + 360\<close>
  where it is.  The roll lies in the closed interval from 0 to 360.
\<close>

theorem get_nustar_roll_value:
  assumes "parse_time L t = Inr d" and "Time L d = Inr a"
    and "solar_north L t = Inr (Angle p Degree)"
    and "\<bar>p + x\<bar> < overflow_threshold"
  shows "\<exists>r m. get_nustar_roll L t (Quantity (Arr0 x) (Angular Degree)) =
              Inr (Quantity (Arr0 r) (Angular Degree))
       \<and> r = np_mod (fl (p + x)) 360
       \<and> (\<exists>k::int. m = fl (p + x) - 360 * of_int k)
       \<and> - 360 < m \<and> m < 360
       \<and> (0 \<le> fl (p + x) \<longrightarrow> 0 \<le> m) \<and> (fl (p + x) < 0 \<longrightarrow> m \<le> 0)
       \<and> r = (if m < 0 then fl (m + 360) else m)
       \<and> 0 \<le> r \<and> r \<le> 360"
proof -
  let ?s = "fl (p + x)"
  let ?m = "fmod ?s 360"
  have 1: "get_nustar_roll L t (Quantity (Arr0 x) (Angular Degree)) =
              Inr (Quantity (Arr0 (np_mod ?s 360)) (Angular Degree))"
    by (rule get_nustar_roll_degrees[OF assms(1-3)])
  have 2: "\<exists>k::int. ?m = ?s - 360 * of_int k"
    unfolding fmod_def by (rule exI) (rule refl)
  have 3: "np_mod ?s 360 = (if ?m < 0 then fl (?m + 360) else ?m)"
    by (auto simp: np_mod_def Let_def)
  have 4: "(0 \<le> ?s \<longrightarrow> 0 \<le> ?m) \<and> (?s < 0 \<longrightarrow> ?m \<le> 0)"
    using fmod_360[of ?s] by blast
  show ?thesis
    using 1 2 3 4 fmod_360_bounds[of ?s] np_mod_range[of ?s] by blast
qed

text \<open>For 90 degrees the instance returns the roll that the notebook prints,
  \<open>98.8658844320891\<close>.\<close>

theorem get_nustar_roll_value_witness:
  "get_nustar_roll notebook_libs (TimeString ''2016-07-26T19:53:15.00'')
       (Quantity (Arr0 90) (Angular Degree)) =
     Inr (Quantity (Arr0 (1739267032375043 / 17592186044416)) (Angular Degree))
   \<and> (0 :: real) \<le> 1739267032375043 / 17592186044416
   \<and> (1739267032375043 / 17592186044416 :: real) \<le> 360"
proof -
  have o: "\<bar>notebook_north + 90\<bar> < overflow_threshold"
    by (simp add: notebook_north_def overflow_threshold_def)
  have "np_mod (fl (notebook_north + 90)) 360 = 1739267032375043 / 17592186044416"
    by (simp only: notebook_north_def fl_north_90 np_mod_north_90)
  then show ?thesis
    using get_nustar_roll_value[OF notebook_parse_literal notebook_Time notebook_solar_north o]
    by auto
qed




subsection \<open>The time argument\<close>

text \<open>
  Claim C9.  Both functions hand the time as the caller gave it to \<^verbatim>\<open>solar_north\<close>; the
  time that \<^verbatim>\<open>parse_time\<close> and \<^verbatim>\<open>Time\<close> produce reaches only \<^verbatim>\<open>get_sun\<close>, and
  \<^verbatim>\<open>get_nustar_roll\<close> makes no use of it.  When the time parses to \<open>d\<close> and astropy
  turns \<open>d\<close> into \<open>a\<close>: an error of \<^verbatim>\<open>get_sun\<close> at \<open>a\<close> is the error of
  \<^verbatim>\<open>get_sky_position\<close>; if \<^verbatim>\<open>get_sun\<close> answers, an error of \<^verbatim>\<open>solar_north\<close> at the
  time as given is; if both answer, the sky position is computed from the Sun at \<open>a\<close> and
  the north pole at the time as given.  An error of \<^verbatim>\<open>solar_north\<close> at the time as given
  is the error of \<^verbatim>\<open>get_nustar_roll\<close>, and its answer \<open>n\<close> gives the roll
  \<^verbatim>\<open>np.mod\<close> of \<open>n\<close> plus the angle and 360; other libraries that accept the time and
  agree on \<^verbatim>\<open>solar_north\<close> at the time as given yield the same roll, whatever they parse
  the time to and whatever their ephemeris.
\<close>

theorem time_argument_dataflow:
  assumes "parse_time L t = Inr d" and "Time L d = Inr a"
  shows "(\<forall>e. get_sun L a = Inl e \<longrightarrow> get_sky_position L t offset = Inl e)
       \<and> (\<forall>s e. get_sun L a = Inr s \<longrightarrow> solar_north L t = Inl e \<longrightarrow>
            get_sky_position L t offset = Inl e)
       \<and> (\<forall>s n. get_sun L a = Inr s \<longrightarrow> solar_north L t = Inr n \<longrightarrow>
            get_sky_position L t (Quantity (Arr1 [x, y]) (Angular u)) =
              Inr (Quantity (Arr1
                [deg (ra s) + convert u Degree
                   (- ((x * cos (cgs n) - y * sin (cgs n))
                       / cos (convert Degree Radian (deg (dec s))))),
                 deg (dec s) + convert u Degree (x * sin (cgs n) + y * cos (cgs n))])
                (Angular Degree)))
       \<and> (\<forall>e. solar_north L t = Inl e \<longrightarrow> get_nustar_roll L t angle = Inl e)
       \<and> (\<forall>n. solar_north L t = Inr n \<longrightarrow>
            get_nustar_roll L t (Quantity (Arr0 z) (Angular Degree)) =
              Inr (Quantity (Arr0 (np_mod (fl (deg n + z)) 360)) (Angular Degree)))
       \<and> (parse_time L' t = Inr d' \<longrightarrow> Time L' d' = Inr a' \<longrightarrow>
            solar_north L' t = solar_north L t \<longrightarrow>
            get_nustar_roll L' t angle = get_nustar_roll L t angle)"
proof (intro conjI impI allI)
  show "get_sky_position L t offset = Inl e" if "get_sun L a = Inl e" for e
    by (simp add: get_sky_position_def assms that)
  show "get_sky_position L t offset = Inl e"
    if "get_sun L a = Inr s" and "solar_north L t = Inl e" for s e
    by (simp add: get_sky_position_def assms that)
  show "get_sky_position L t (Quantity (Arr1 [x, y]) (Angular u)) =
      Inr (Quantity (Arr1
        [deg (ra s) + convert u Degree
           (- ((x * cos (cgs n) - y * sin (cgs n))
               / cos (convert Degree Radian (deg (dec s))))),
         deg (dec s) + convert u Degree (x * sin (cgs n) + y * cos (cgs n))])
        (Angular Degree))"
    if "get_sun L a = Inr s" and "solar_north L t = Inr n" for s n
    by (rule get_sky_position_vector[OF assms that])
  show "get_nustar_roll L t angle = Inl e" if "solar_north L t = Inl e" for e
    by (simp add: get_nustar_roll_def assms that)
  show "get_nustar_roll L t (Quantity (Arr0 z) (Angular Degree)) =
          Inr (Quantity (Arr0 (np_mod (fl (deg n + z)) 360)) (Angular Degree))"
    if "solar_north L t = Inr n" for n
    by (simp add: get_nustar_roll_def assms that Let_def convert_def)
  show "get_nustar_roll L' t angle = get_nustar_roll L t angle"
    if "parse_time L' t = Inr d'" and "Time L' d' = Inr a'"
      and "solar_north L' t = solar_north L t"
    by (simp add: get_nustar_roll_def assms that)
qed

text \<open>In the witness, \<open>example_libs\<close> gives the sky position and the roll from its Sun
  and its north pole; a second set of libraries, which parses every time to the first day
  of 2000 and has no ephemeris, fails in \<^verbatim>\<open>get_sky_position\<close> with the error of its
  \<^verbatim>\<open>get_sun\<close> and returns the same roll.\<close>

theorem time_argument_dataflow_witness:
  "get_sky_position example_libs (TimeString ''2016-07-26T19:53:15.00'')
       (Quantity (Arr1 [1000, 150]) (Angular Arcsec)) =
     Inr (Quantity (Arr1 [120 - 1989 / 7200,
                          convert Radian Degree (arccos (12 / 13)) + 424 / 3600])
            (Angular Degree))
   \<and> get_nustar_roll example_libs (TimeString ''2016-07-26T19:53:15.00'')
         (Quantity (Arr0 90) (Angular Degree))
     = Inr (Quantity (Arr0 (np_mod (fl (convert Radian Degree (arcsin (7 / 25)) + 90)) 360))
              (Angular Degree))
   \<and> get_sky_position
       (example_libs\<lparr>parse_time := \<lambda>t. Inr \<lparr>year = 2000, month = 1, day = 1, hour = 0,
                          minute = 0, second = 0, microsecond = 0\<rparr>,
                      get_sun := \<lambda>a. Inl (Raised ''no ephemeris'')\<rparr>)
       (TimeString ''2016-07-26T19:53:15.00'') (Quantity (Arr1 [1000, 150]) (Angular Arcsec))
     = Inl (Raised ''no ephemeris'')
   \<and> get_nustar_roll
       (example_libs\<lparr>parse_time := \<lambda>t. Inr \<lparr>year = 2000, month = 1, day = 1, hour = 0,
                          minute = 0, second = 0, microsecond = 0\<rparr>,
                      get_sun := \<lambda>a. Inl (Raised ''no ephemeris'')\<rparr>)
       (TimeString ''2016-07-26T19:53:15.00'') (Quantity (Arr0 90) (Angular Degree))
     = get_nustar_roll example_libs (TimeString ''2016-07-26T19:53:15.00'')
         (Quantity (Arr0 90) (Angular Degree))"
proof -
  let ?L' = "example_libs\<lparr>parse_time := \<lambda>t. Inr \<lparr>year = 2000, month = 1, day = 1, hour = 0,
                          minute = 0, second = 0, microsecond = 0\<rparr>,
                      get_sun := \<lambda>a. Inl (Raised ''no ephemeris'')\<rparr>"
  let ?T = "TimeString ''2016-07-26T19:53:15.00''"
  have 1: "parse_time ?L' ?T =
      Inr \<lparr>year = 2000, month = 1, day = 1, hour = 0, minute = 0, second = 0,
           microsecond = 0\<rparr>"
    by simp
  have 2: "Time ?L' \<lparr>year = 2000, month = 1, day = 1, hour = 0, minute = 0, second = 0,
      microsecond = 0\<rparr> = Inr \<lparr>year = 2000, month = 1, day = 1, hour = 0, minute = 0,
      second = 0, microsecond = 0\<rparr>"
    by (simp add: example_libs_def)
  have 3: "solar_north ?L' ?T = solar_north example_libs ?T"
    by simp
  have 4: "get_sun ?L' a = Inl (Raised ''no ephemeris'')" for a
    by simp
  note A = time_argument_dataflow[OF example_parse_literal example_Time,
      of "Quantity (Arr1 [1000, 150]) (Angular Arcsec)" 1000 150 Arcsec
         "Quantity (Arr0 90) (Angular Degree)" 90 ?L'
         "\<lparr>year = 2000, month = 1, day = 1, hour = 0, minute = 0, second = 0,
            microsecond = 0\<rparr>"
         "\<lparr>year = 2000, month = 1, day = 1, hour = 0, minute = 0, second = 0,
            microsecond = 0\<rparr>"]
  note B = time_argument_dataflow[OF 1 2,
      of "Quantity (Arr1 [1000, 150]) (Angular Arcsec)"]
  have sky: "get_sky_position example_libs ?T (Quantity (Arr1 [1000, 150]) (Angular Arcsec)) =
     Inr (Quantity (Arr1 [120 - 1989 / 7200,
                          convert Radian Degree (arccos (12 / 13)) + 424 / 3600])
            (Angular Degree))"
    using A example_get_sun example_solar_north
    apply (simp only: example_facts sky_coord.simps)
    apply (simp add: convert_def)
    done
  have roll: "get_nustar_roll example_libs ?T (Quantity (Arr0 90) (Angular Degree))
     = Inr (Quantity (Arr0 (np_mod (fl (convert Radian Degree (arcsin (7 / 25)) + 90)) 360))
              (Angular Degree))"
    using A example_solar_north by simp
  have same: "get_nustar_roll ?L' ?T (Quantity (Arr0 90) (Angular Degree))
     = get_nustar_roll example_libs ?T (Quantity (Arr0 90) (Angular Degree))"
    using A 1 2 3 by blast
  have fails: "get_sky_position ?L' ?T (Quantity (Arr1 [1000, 150]) (Angular Arcsec))
     = Inl (Raised ''no ephemeris'')"
    by (rule B[THEN conjunct1, rule_format, OF 4])
  show ?thesis using sky roll same fails by (simp only:) 
qed

subsection \<open>The midpoint of the dwell\<close>

text \<open>
  Claim C6.  Let \<^verbatim>\<open>parse_time\<close> read the three strings of the notebook as the datetimes
  they denote and return a datetime unchanged, and let the answer of \<^verbatim>\<open>solar_north\<close>
  depend on its argument only through what \<^verbatim>\<open>parse_time\<close> makes of it.  Then the
  midpoint \<^verbatim>\<open>start + (end - start) * 0.5\<close> of the dwell from 19:22:10 to 20:24:20 on
  2016-07-26 is 19:53:15 on that day, to the microsecond, and both functions return for
  this datetime what they return for the string \<^verbatim>\<open>'2016-07-26T19:53:15.00'\<close>.
\<close>

theorem aim_time_midpoint:
  assumes dwell_start: "parse_time L (TimeString ''2016-07-26T19:22:10'') =
      Inr \<lparr>year = 2016, month = 7, day = 26, hour = 19, minute = 22, second = 10,
           microsecond = 0\<rparr>"
    and dwell_end: "parse_time L (TimeString ''2016-07-26T20:24:20'') =
      Inr \<lparr>year = 2016, month = 7, day = 26, hour = 20, minute = 24, second = 20,
           microsecond = 0\<rparr>"
    and literal: "parse_time L (TimeString ''2016-07-26T19:53:15.00'') =
      Inr \<lparr>year = 2016, month = 7, day = 26, hour = 19, minute = 53, second = 15,
           microsecond = 0\<rparr>"
    and passes: "\<forall>d. parse_time L (TimeDatetime d) = Inr d"
    and instant: "\<forall>t t'. parse_time L t = parse_time L t' \<longrightarrow>
      solar_north L t = solar_north L t'"
  shows "\<exists>mid. aim_time L ''2016-07-26T19:22:10'' ''2016-07-26T20:24:20'' = Inr mid
     \<and> mid = \<lparr>year = 2016, month = 7, day = 26, hour = 19, minute = 53, second = 15,
               microsecond = 0\<rparr>
     \<and> get_sky_position L (TimeDatetime mid) offset =
         get_sky_position L (TimeString ''2016-07-26T19:53:15.00'') offset
     \<and> get_nustar_roll L (TimeDatetime mid) angle =
         get_nustar_roll L (TimeString ''2016-07-26T19:53:15.00'') angle"
proof -
  let ?mid = "\<lparr>year = 2016, month = 7, day = 26, hour = 19, minute = 53, second = 15,
               microsecond = 0\<rparr>"
  have aim: "aim_time L ''2016-07-26T19:22:10'' ''2016-07-26T20:24:20'' = Inr ?mid"
    unfolding aim_time_def dwell_start dwell_end using dwell_midpoint by simp
  have same: "parse_time L (TimeDatetime ?mid) =
      parse_time L (TimeString ''2016-07-26T19:53:15.00'')"
    using passes literal by simp
  then have north: "solar_north L (TimeDatetime ?mid) =
      solar_north L (TimeString ''2016-07-26T19:53:15.00'')"
    using instant by blast
  have "get_sky_position L (TimeDatetime ?mid) offset =
         get_sky_position L (TimeString ''2016-07-26T19:53:15.00'') offset"
    by (simp only: get_sky_position_def same north)
  moreover have "get_nustar_roll L (TimeDatetime ?mid) angle =
         get_nustar_roll L (TimeString ''2016-07-26T19:53:15.00'') angle"
    by (simp only: get_nustar_roll_def same north)
  ultimately show ?thesis using aim by blast
qed

theorem aim_time_midpoint_witness:
  "aim_time example_libs ''2016-07-26T19:22:10'' ''2016-07-26T20:24:20'' =
     Inr \<lparr>year = 2016, month = 7, day = 26, hour = 19, minute = 53, second = 15,
          microsecond = 0\<rparr>
   \<and> get_sky_position example_libs
       (TimeDatetime \<lparr>year = 2016, month = 7, day = 26, hour = 19, minute = 53, second = 15,
          microsecond = 0\<rparr>) (Quantity (Arr1 [1000, 150]) (Angular Arcsec)) =
     get_sky_position example_libs (TimeString ''2016-07-26T19:53:15.00'')
       (Quantity (Arr1 [1000, 150]) (Angular Arcsec))
   \<and> get_nustar_roll example_libs
       (TimeDatetime \<lparr>year = 2016, month = 7, day = 26, hour = 19, minute = 53, second = 15,
          microsecond = 0\<rparr>) (Quantity (Arr0 90) (Angular Degree)) =
     get_nustar_roll example_libs (TimeString ''2016-07-26T19:53:15.00'')
       (Quantity (Arr0 90) (Angular Degree))"
  using aim_time_midpoint[OF example_parse_start example_parse_end example_parse_literal
      example_parse_datetime example_instant,
      of "Quantity (Arr1 [1000, 150]) (Angular Arcsec)" "Quantity (Arr0 90) (Angular Degree)"]
  by blast

end
